theory Spec2Isabelle
  imports Main "HOL-Library.Sublist"
begin

section \<open>Resource keys, formatted texts and errors\<close>

text \<open>
  Modelled from the spec: the package \<^verbatim>\<open>meta\<close> (the type \<^verbatim>\<open>meta.Key\<close> and its three
  constructors) is not among the sources. The spec gives a key three variants,
  \<^verbatim>\<open>Global {Name}\<close>, \<^verbatim>\<open>Regional {Name, Region}\<close> and \<^verbatim>\<open>Zonal {Name, Zone}\<close>, compared
  by variant and fields. The code reads \<^verbatim>\<open>key.Name\<close>, \<^verbatim>\<open>key.Region\<close> and \<^verbatim>\<open>key.Zone\<close> of any
  key; a field a variant does not populate reads as Go's zero value, the empty string.
  The argument order of the constructors is the one of the calls in \<^verbatim>\<open>utils.go\<close>:
  \<^verbatim>\<open>meta.RegionalKey(name, region)\<close>, \<^verbatim>\<open>meta.ZonalKey(name, zone)\<close>.
\<close>

datatype Key =
    GlobalKey (Name: string)
  | RegionalKey (Name: string) (Region: string)
  | ZonalKey (Name: string) (Zone: string)
where
  "Region (GlobalKey n) = []"
| "Region (ZonalKey n z) = []"
| "Zone (GlobalKey n) = []"
| "Zone (RegionalKey n r) = []"

text \<open>
  \<^verbatim>\<open>fmt.Sprintf\<close> and \<^verbatim>\<open>fmt.Errorf\<close> are kept symbolic: a formatted text is the format
  string with its operands, not rendered (the rendering of a \<^verbatim>\<open>meta.Key\<close> under \<^verbatim>\<open>%v\<close> is
  decided by the missing package).
\<close>

datatype fmt_arg = StringArg string | KeyArg Key

datatype formatted = Sprintf string "fmt_arg list"

text \<open>
  A Go \<^verbatim>\<open>error\<close> value that is not nil: a \<^verbatim>\<open>*googleapi.Error\<close> with the two fields the
  generated code sets, an error made by \<^verbatim>\<open>fmt.Errorf\<close>, or an error made elsewhere (by a
  transport, a rate limiter, a hook or a test), identified by its message. A result of
  type \<^verbatim>\<open>error\<close> is an \<open>error option\<close>, \<open>None\<close> for nil; a result of pointer type is an
  option as well.
\<close>

datatype error =
    googleapi_Error (Code: int) (Message: formatted)
  | Errorf string "fmt_arg list"
  | OtherError string

definition StatusNotFound :: int where
  "StatusNotFound = 404"

definition StatusConflict :: int where
  "StatusConflict = 409"

section \<open>The resource URL parser (\<^verbatim>\<open>pkg/cloud/utils.go\<close>)\<close>

definition gaPrefix :: string where
  "gaPrefix = ''https://www.googleapis.com/compute/v1/''"

definition alphaPrefix :: string where
  "alphaPrefix = ''https://www.googleapis.com/compute/alpha/''"

definition betaPrefix :: string where
  "betaPrefix = ''https://www.googleapis.com/compute/beta/''"

definition allPrefixes :: "string list" where
  "allPrefixes = [gaPrefix, alphaPrefix, betaPrefix]"

record ResourceID =
  ProjectID :: string
  Resource :: string
  Key :: "Key option"

text \<open>\<^verbatim>\<open>strings.HasPrefix(s, prefix)\<close>: whether \<open>s\<close> begins with \<open>prefix\<close>.\<close>

definition HasPrefix :: "string \<Rightarrow> string \<Rightarrow> bool" where
  "HasPrefix s pre = prefix pre s"

text \<open>
  \<^verbatim>\<open>strings.Split(s, sep)\<close> for a separator of one byte, the only use in the code
  (\<^verbatim>\<open>"/"\<close>): the substrings between the separators, one more than there are separators, so
  the result is never empty and the empty string gives one empty substring.
\<close>

fun Split :: "string \<Rightarrow> char \<Rightarrow> string list" where
  "Split [] sep = [[]]"
| "Split (c # cs) sep =
     (if c = sep then [] # Split cs sep
      else (case Split cs sep of [] \<Rightarrow> [[c]] | p # ps \<Rightarrow> (c # p) # ps))"

text \<open>
  The loop over \<^verbatim>\<open>allPrefixes\<close>: the first prefix the URL begins with is cut off and the
  loop is left; \<open>Inl\<close> is the \<^verbatim>\<open>return nil, errNotValid\<close> inside the loop.
\<close>

fun stripPrefix :: "string \<Rightarrow> string list \<Rightarrow> error \<Rightarrow> error + string" where
  "stripPrefix url [] errNotValid = Inr url"
| "stripPrefix url (pre # pres) errNotValid =
     (if HasPrefix url pre then
        (if length url < length pre then Inl errNotValid
         else Inr (drop (length pre) url))
      else stripPrefix url pres errNotValid)"

text \<open>
  The statements after the loop, on the URL the loop leaves. The result is Go's pair
  \<^verbatim>\<open>(*ResourceID, error)\<close>.
\<close>

definition parseParts :: "string \<Rightarrow> error \<Rightarrow> ResourceID option \<times> error option" where
  "parseParts url errNotValid =
     (let parts = Split url (CHR ''/'') in
      if length parts < 2 \<or> parts ! 0 \<noteq> ''projects'' then (None, Some errNotValid)
      else
        let ret = \<lparr>ProjectID = parts ! 1, Resource = [], Key = None\<rparr> in
        if length parts = 2 then (Some (ret\<lparr>Resource := ''projects''\<rparr>), None)
        else if length parts < 4 then (None, Some errNotValid)
        else if length parts = 4 then
          (if parts ! 2 = ''regions'' then
             (Some (ret\<lparr>Resource := ''regions'', Key := Some (GlobalKey (parts ! 3))\<rparr>), None)
           else if parts ! 2 = ''zones'' then
             (Some (ret\<lparr>Resource := ''zones'', Key := Some (GlobalKey (parts ! 3))\<rparr>), None)
           else (None, Some errNotValid))
        else if parts ! 2 = ''global'' then
          (if length parts \<noteq> 5 then (None, Some errNotValid)
           else (Some (ret\<lparr>Resource := parts ! 3, Key := Some (GlobalKey (parts ! 4))\<rparr>), None))
        else if parts ! 2 = ''regions'' then
          (if length parts \<noteq> 6 then (None, Some errNotValid)
           else (Some (ret\<lparr>Resource := parts ! 4,
                            Key := Some (RegionalKey (parts ! 5) (parts ! 3))\<rparr>), None))
        else if parts ! 2 = ''zones'' then
          (if length parts \<noteq> 6 then (None, Some errNotValid)
           else (Some (ret\<lparr>Resource := parts ! 4,
                            Key := Some (ZonalKey (parts ! 5) (parts ! 3))\<rparr>), None))
        else (None, Some errNotValid))"

definition ParseResourceURL :: "string \<Rightarrow> ResourceID option \<times> error option" where
  "ParseResourceURL url =
     (let errNotValid = Errorf ''%q is not a valid resource URL'' [StringArg url] in
      case stripPrefix url allPrefixes errNotValid of
        Inl e \<Rightarrow> (None, Some e)
      | Inr url' \<Rightarrow> parseParts url' errNotValid)"

subsection \<open>The accepted shapes, in the spec's words\<close>

text \<open>
  A segment is a string without \<^verbatim>\<open>/\<close> (it may be empty: the code counts segments and does
  not look into them). The six shapes of the spec, and the inputs it accepts: a shape,
  alone or after one of the three known prefixes.
\<close>

definition segment :: "string \<Rightarrow> bool" where
  "segment s = (CHR ''/'' \<notin> set s)"

definition shapes :: "string set" where
  "shapes =
     {''projects/'' @ proj | proj. segment proj} \<union>
     {''projects/'' @ proj @ ''/regions/'' @ region | proj region.
        segment proj \<and> segment region} \<union>
     {''projects/'' @ proj @ ''/zones/'' @ zone | proj zone.
        segment proj \<and> segment zone} \<union>
     {''projects/'' @ proj @ ''/global/'' @ ty @ ''/'' @ name | proj ty name.
        segment proj \<and> segment ty \<and> segment name} \<union>
     {''projects/'' @ proj @ ''/regions/'' @ region @ ''/'' @ ty @ ''/'' @ name |
        proj region ty name.
        segment proj \<and> segment region \<and> segment ty \<and> segment name} \<union>
     {''projects/'' @ proj @ ''/zones/'' @ zone @ ''/'' @ ty @ ''/'' @ name |
        proj zone ty name.
        segment proj \<and> segment zone \<and> segment ty \<and> segment name}"

definition accepted :: "string \<Rightarrow> bool" where
  "accepted url =
     (\<exists>pre s. (pre = [] \<or> pre \<in> set allPrefixes) \<and> s \<in> shapes \<and> url = pre @ s)"

text \<open>The inverse of \<open>Split\<close> at \<^verbatim>\<open>/\<close>, used to read a string back from its segments.\<close>

fun join :: "string list \<Rightarrow> string" where
  "join [] = []"
| "join [p] = p"
| "join (p # q # ps) = p @ CHR ''/'' # join (q # ps)"

section \<open>The generated adapters (the templates of \<^verbatim>\<open>genTypes\<close>)\<close>

text \<open>
  The generator expands one template per service of \<^verbatim>\<open>meta.AllServices\<close>. A function
  below is the Go function the template generates, with the template's parameters as the
  argument \<open>si\<close> (and \<open>meth\<close> for a custom verb).
\<close>

text \<open>
  Modelled from the spec: \<^verbatim>\<open>meta.ServiceInfo\<close> and \<^verbatim>\<open>meta.Method\<close> are not among the sources.
  The records hold the template fields the generated functions use. Of
  \<^verbatim>\<open>KeyIsGlobal\<close>, \<^verbatim>\<open>KeyIsRegional\<close> and \<^verbatim>\<open>KeyIsZonal\<close> exactly one holds for a resource type
  (spec, 4.6), so the three are one field \<open>keyType\<close>.
\<close>

datatype KeyType = Global | Regional | Zonal

record ServiceInfo =
  Object :: string
  Service :: string
  Version :: string
  VersionField :: string
  keyType :: KeyType
  MockWrapType :: string

record Method =
  Name :: string
  ReturnType :: string
  MockHookName :: string

subsection \<open>The mock adapter\<close>

text \<open>
  The data fields of \<^verbatim>\<open>Mock<Service>\<close>. A map of Go is a partial function; an injected
  error is an \<^verbatim>\<open>error\<close> value, which may be nil; \<^verbatim>\<open>ListError\<close> is a pointer to one.
  The mutex is not modelled: calls are sequential.
\<close>

record ('o, 'x) Mock =
  Objects :: "Key \<rightharpoonup> 'o"
  GetError :: "Key \<rightharpoonup> error option"
  ListError :: "error option option"
  InsertError :: "Key \<rightharpoonup> error option"
  DeleteError :: "Key \<rightharpoonup> error option"
  X :: "'x option"

text \<open>
  The result of a custom verb: the generated function returns \<^verbatim>\<open>error\<close> when the method's
  return type is \<^verbatim>\<open>Operation\<close>, and a pair of a value and an error otherwise.
\<close>

datatype 'v MethodResult =
    OperationResult "error option"
  | ValueResult "'v option" "error option"

text \<open>
  The hook fields of \<^verbatim>\<open>Mock<Service>\<close>, \<open>None\<close> for a nil function. A hook is Go code
  that receives the mock and may change it, so it is a function from the mock's data to
  its results and the data it leaves. HOL has no record that holds functions over
  itself, so the hooks are a record of their own, passed beside the data. The hooks of
  the custom verbs are found by their field name, \<^verbatim>\<open>MockHookName\<close>.
\<close>

record ('o, 'x, 'a, 'v) MockHooks =
  GetHook :: "(('o, 'x) Mock \<Rightarrow> Key \<Rightarrow> (bool \<times> 'o option \<times> error option) \<times> ('o, 'x) Mock) option"
  ListHook :: "(('o, 'x) Mock \<Rightarrow> (bool \<times> 'o list \<times> error option) \<times> ('o, 'x) Mock) option"
  InsertHook :: "(('o, 'x) Mock \<Rightarrow> Key \<Rightarrow> 'o \<Rightarrow> (bool \<times> error option) \<times> ('o, 'x) Mock) option"
  DeleteHook :: "(('o, 'x) Mock \<Rightarrow> Key \<Rightarrow> (bool \<times> error option) \<times> ('o, 'x) Mock) option"
  MethodHook :: "string \<Rightarrow> (('o, 'x) Mock \<Rightarrow> Key \<Rightarrow> 'a list \<Rightarrow> 'v MethodResult \<times> ('o, 'x) Mock) option"

definition NewMock :: "('o, 'x) Mock" where
  "NewMock = \<lparr>Objects = Map.empty, GetError = Map.empty, ListError = None,
              InsertError = Map.empty, DeleteError = Map.empty, X = None\<rparr>"

definition NewMockHooks :: "('o, 'x, 'a, 'v) MockHooks" where
  "NewMockHooks = \<lparr>GetHook = None, ListHook = None, InsertHook = None, DeleteHook = None,
                   MethodHook = (\<lambda>name. None)\<rparr>"

definition MockGet ::
  "('o, 'x, 'a, 'v) MockHooks \<Rightarrow> ServiceInfo \<Rightarrow> ('o, 'x) Mock \<Rightarrow> Key \<Rightarrow>
     ('o option \<times> error option) \<times> ('o, 'x) Mock" where
  "MockGet hooks si m key =
     (let (intercept, res, m1) =
        (case GetHook hooks of
           None \<Rightarrow> (False, (None, None), m)
         | Some hook \<Rightarrow> (let ((intercept, obj, err), m') = hook m key in (intercept, (obj, err), m')))
      in
      if intercept then (res, m1)
      else
        (case GetError m1 key of
           Some err \<Rightarrow> ((None, err), m1)
         | None \<Rightarrow>
            (case Objects m1 key of
               Some obj \<Rightarrow> ((Some obj, None), m1)
             | None \<Rightarrow>
                ((None, Some (googleapi_Error StatusNotFound
                    (Sprintf (MockWrapType si @ '' %v not found'') [KeyArg key]))), m1))))"

text \<open>
  \<^verbatim>\<open>List\<close>: \<open>loc\<close> is the region or zone argument (a global type has none, and does not
  read it). Go visits the entries of a map in an order it does not specify: \<open>order\<close> is
  the order in which \<^verbatim>\<open>range m.Objects\<close> visits the keys.
\<close>

definition MockList ::
  "('o, 'x, 'a, 'v) MockHooks \<Rightarrow> ServiceInfo \<Rightarrow> ('o, 'x) Mock \<Rightarrow> string \<Rightarrow> Key list \<Rightarrow>
     ('o list \<times> error option) \<times> ('o, 'x) Mock" where
  "MockList hooks si m loc order =
     (let (intercept, res, m1) =
        (case ListHook hooks of
           None \<Rightarrow> (False, ([], None), m)
         | Some hook \<Rightarrow> (let ((intercept, objs, err), m') = hook m in (intercept, (objs, err), m')))
      in
      if intercept then (res, m1)
      else
        (case ListError m1 of
           Some err \<Rightarrow> (([], err), m1)
         | None \<Rightarrow>
            ((List.map_filter
                (\<lambda>key.
                   if keyType si = Regional \<and> Region key \<noteq> loc then None
                   else if keyType si = Zonal \<and> Zone key \<noteq> loc then None
                   else Objects m1 key)
                order, None), m1)))"

definition MockInsert ::
  "('o, 'x, 'a, 'v) MockHooks \<Rightarrow> ServiceInfo \<Rightarrow> ('o, 'x) Mock \<Rightarrow> Key \<Rightarrow> 'o \<Rightarrow>
     error option \<times> ('o, 'x) Mock" where
  "MockInsert hooks si m key obj =
     (let (intercept, res, m1) =
        (case InsertHook hooks of
           None \<Rightarrow> (False, None, m)
         | Some hook \<Rightarrow> (let ((intercept, err), m') = hook m key obj in (intercept, err, m')))
      in
      if intercept then (res, m1)
      else
        (case InsertError m1 key of
           Some err \<Rightarrow> (err, m1)
         | None \<Rightarrow>
            (case Objects m1 key of
               Some old \<Rightarrow>
                (Some (googleapi_Error StatusConflict
                    (Sprintf (MockWrapType si @ '' %v exists'') [KeyArg key])), m1)
             | None \<Rightarrow> (None, m1\<lparr>Objects := (Objects m1)(key \<mapsto> obj)\<rparr>))))"

definition MockDelete ::
  "('o, 'x, 'a, 'v) MockHooks \<Rightarrow> ServiceInfo \<Rightarrow> ('o, 'x) Mock \<Rightarrow> Key \<Rightarrow>
     error option \<times> ('o, 'x) Mock" where
  "MockDelete hooks si m key =
     (let (intercept, res, m1) =
        (case DeleteHook hooks of
           None \<Rightarrow> (False, None, m)
         | Some hook \<Rightarrow> (let ((intercept, err), m') = hook m key in (intercept, err, m')))
      in
      if intercept then (res, m1)
      else
        (case DeleteError m1 key of
           Some err \<Rightarrow> (err, m1)
         | None \<Rightarrow>
            (case Objects m1 key of
               None \<Rightarrow>
                (Some (googleapi_Error StatusNotFound
                    (Sprintf (MockWrapType si @ '' %v not found'') [KeyArg key])), m1)
             | Some old \<Rightarrow> (None, m1\<lparr>Objects := (Objects m1)(key := None)\<rparr>))))"

text \<open>
  A custom verb of the mock (\<^verbatim>\<open>range .Methods\<close>): \<open>args\<close> are the verb's own arguments
  (\<^verbatim>\<open>CallArgs\<close>), passed to the hook as they are.
\<close>

definition MockMethod ::
  "('o, 'x, 'a, 'v) MockHooks \<Rightarrow> Method \<Rightarrow> ('o, 'x) Mock \<Rightarrow> Key \<Rightarrow> 'a list \<Rightarrow>
     'v MethodResult \<times> ('o, 'x) Mock" where
  "MockMethod hooks meth m key args =
     (if ReturnType meth = ''Operation'' then
        (case MethodHook hooks (MockHookName meth) of
           Some hook \<Rightarrow> hook m key args
         | None \<Rightarrow> (OperationResult None, m))
      else
        (case MethodHook hooks (MockHookName meth) of
           Some hook \<Rightarrow> hook m key args
         | None \<Rightarrow>
            (ValueResult None (Some (Errorf (MockHookName meth @ '' must be set'') [])), m)))"

subsection \<open>The real adapter\<close>

text \<open>
  \<^verbatim>\<open>RateLimitKey\<close> as the generated code fills it; \<^verbatim>\<open>meta.Version\<close> is a string type.
\<close>

record RateLimitKey =
  Operation :: string
  Version :: string
  Target :: string

text \<open>
  The objects of a resource type are opaque but for the field \<^verbatim>\<open>Name\<close>, which \<^verbatim>\<open>Insert\<close>
  writes: a record with that field, the other fields being its extension.
\<close>

record Object =
  Name :: string

text \<open>
  A call of the versioned transport, \<^verbatim>\<open>g.s.<VersionField>.<Service>.<Method>(params)\<close>:
  the parameters are strings (project, region or zone, name), the object of an insert, or
  the arguments of a custom verb.
\<close>

datatype ('o, 'a) Param = StringParam string | ObjectParam 'o | ArgParam 'a

record ('o, 'a) Call =
  CallVersionField :: string
  CallService :: string
  CallMethod :: string
  CallParams :: "('o, 'a) Param list"

text \<open>
  Modelled from the spec: \<^verbatim>\<open>Service\<close>, its rate limiter, its project router, the versioned
  transports and \<^verbatim>\<open>WaitForCompletion\<close> are not among the sources. Each is a function on
  the state \<open>'w\<close> of the world outside the adapter, which it may read and change:
  \<^item> \<open>RateLimiter\<close> is \<^verbatim>\<open>RateLimiter.Accept(ctx, rk)\<close>, the spec's
    \<^verbatim>\<open>accept(context, RateLimitKey) -> blocks or fails\<close>: it answers nil or a failure;
  \<^item> \<open>ProjectRouter\<close> is \<^verbatim>\<open>ProjectRouter.ProjectID(ctx, version, service)\<close>;
  \<^item> \<open>GetDo\<close>, \<open>OperationDo\<close> and \<open>ValueDo\<close> are \<^verbatim>\<open>call.Do()\<close> of a call that returns
    an object, an operation handle, or the value of a custom verb;
  \<^item> \<open>Pages\<close> is \<^verbatim>\<open>call.Pages(ctx, f)\<close>: the items of the pages it hands to \<open>f\<close>, in
    order, and its error;
  \<^item> \<open>WaitForCompletion\<close> is the completion waiter (spec, 4.5).
\<close>

record ('o, 'a, 'p, 'v, 'w) Service =
  RateLimiter :: "RateLimitKey \<Rightarrow> 'w \<Rightarrow> error option \<times> 'w"
  ProjectRouter :: "string \<Rightarrow> string \<Rightarrow> 'w \<Rightarrow> string \<times> 'w"
  GetDo :: "('o, 'a) Call \<Rightarrow> 'w \<Rightarrow> ('o option \<times> error option) \<times> 'w"
  Pages :: "('o, 'a) Call \<Rightarrow> 'w \<Rightarrow> ('o list list \<times> error option) \<times> 'w"
  OperationDo :: "('o, 'a) Call \<Rightarrow> 'w \<Rightarrow> ('p option \<times> error option) \<times> 'w"
  ValueDo :: "('o, 'a) Call \<Rightarrow> 'w \<Rightarrow> ('v option \<times> error option) \<times> 'w"
  WaitForCompletion :: "'p option \<Rightarrow> 'w \<Rightarrow> error option \<times> 'w"

text \<open>
  The calls the generated functions build, \<^verbatim>\<open>call := g.s.<VersionField>.<Service>.Get(...)\<close>
  and its like: the parameters depend on the key type of the service as the three
  branches of the template say.
\<close>

definition GetCall :: "ServiceInfo \<Rightarrow> string \<Rightarrow> Key \<Rightarrow> ('o, 'a) Call" where
  "GetCall si projectID key =
     \<lparr>CallVersionField = VersionField si, CallService = Service si, CallMethod = ''Get'',
      CallParams =
        (case keyType si of
           Global \<Rightarrow> [StringParam projectID, StringParam (Key.Name key)]
         | Regional \<Rightarrow>
            [StringParam projectID, StringParam (Region key), StringParam (Key.Name key)]
         | Zonal \<Rightarrow>
            [StringParam projectID, StringParam (Zone key), StringParam (Key.Name key)])\<rparr>"

definition ListCall :: "ServiceInfo \<Rightarrow> string \<Rightarrow> string \<Rightarrow> ('o, 'a) Call" where
  "ListCall si projectID loc =
     \<lparr>CallVersionField = VersionField si, CallService = Service si, CallMethod = ''List'',
      CallParams =
        (case keyType si of
           Global \<Rightarrow> [StringParam projectID]
         | Regional \<Rightarrow> [StringParam projectID, StringParam loc]
         | Zonal \<Rightarrow> [StringParam projectID, StringParam loc])\<rparr>"

definition InsertCall :: "ServiceInfo \<Rightarrow> string \<Rightarrow> Key \<Rightarrow> 'o \<Rightarrow> ('o, 'a) Call" where
  "InsertCall si projectID key obj =
     \<lparr>CallVersionField = VersionField si, CallService = Service si, CallMethod = ''Insert'',
      CallParams =
        (case keyType si of
           Global \<Rightarrow> [StringParam projectID, ObjectParam obj]
         | Regional \<Rightarrow> [StringParam projectID, StringParam (Region key), ObjectParam obj]
         | Zonal \<Rightarrow> [StringParam projectID, StringParam (Zone key), ObjectParam obj])\<rparr>"

definition DeleteCall :: "ServiceInfo \<Rightarrow> string \<Rightarrow> Key \<Rightarrow> ('o, 'a) Call" where
  "DeleteCall si projectID key =
     \<lparr>CallVersionField = VersionField si, CallService = Service si, CallMethod = ''Delete'',
      CallParams =
        (case keyType si of
           Global \<Rightarrow> [StringParam projectID, StringParam (Key.Name key)]
         | Regional \<Rightarrow>
            [StringParam projectID, StringParam (Region key), StringParam (Key.Name key)]
         | Zonal \<Rightarrow>
            [StringParam projectID, StringParam (Zone key), StringParam (Key.Name key)])\<rparr>"

definition MethodCall ::
  "ServiceInfo \<Rightarrow> Method \<Rightarrow> string \<Rightarrow> Key \<Rightarrow> 'a list \<Rightarrow> ('o, 'a) Call" where
  "MethodCall si meth projectID key args =
     \<lparr>CallVersionField = VersionField si, CallService = Service si,
      CallMethod = Method.Name meth,
      CallParams =
        (case keyType si of
           Global \<Rightarrow> [StringParam projectID, StringParam (Key.Name key)]
         | Regional \<Rightarrow>
            [StringParam projectID, StringParam (Region key), StringParam (Key.Name key)]
         | Zonal \<Rightarrow>
            [StringParam projectID, StringParam (Zone key), StringParam (Key.Name key)])
        @ map ArgParam args\<rparr>"

text \<open>
  The generated functions. \<^verbatim>\<open>g.s.RateLimiter.Accept(ctx, rk)\<close> is a statement: what it
  returns is dropped, and only the world it leaves goes on.
\<close>

definition GCEGet ::
  "('o, 'a, 'p, 'v, 'w) Service \<Rightarrow> ServiceInfo \<Rightarrow> Key \<Rightarrow> 'w \<Rightarrow>
     ('o option \<times> error option) \<times> 'w" where
  "GCEGet s si key w =
     (let rk = \<lparr>Operation = ''Get'', Version = ServiceInfo.Version si, Target = Object si\<rparr>;
          w1 = snd (RateLimiter s rk w);
          (projectID, w2) = ProjectRouter s (ServiceInfo.Version si) (Service si) w1;
          call = GetCall si projectID key
      in GetDo s call w2)"

definition GCEList ::
  "('o, 'a, 'p, 'v, 'w) Service \<Rightarrow> ServiceInfo \<Rightarrow> string \<Rightarrow> 'w \<Rightarrow>
     ('o list \<times> error option) \<times> 'w" where
  "GCEList s si loc w =
     (let rk = \<lparr>Operation = ''List'', Version = ServiceInfo.Version si, Target = Object si\<rparr>;
          w1 = snd (RateLimiter s rk w);
          (projectID, w2) = ProjectRouter s (ServiceInfo.Version si) (Service si) w1;
          call = ListCall si projectID loc;
          ((pages, err), w3) = Pages s call w2;
          all = concat pages
      in case err of
           Some e \<Rightarrow> (([], Some e), w3)
         | None \<Rightarrow> ((all, None), w3))"

text \<open>
  \<^verbatim>\<open>Insert\<close> writes \<^verbatim>\<open>obj.Name\<close> through the caller's pointer: the object as the call
  leaves it is the second component of the result.
\<close>

definition GCEInsert ::
  "('b Object_scheme, 'a, 'p, 'v, 'w) Service \<Rightarrow> ServiceInfo \<Rightarrow> Key \<Rightarrow> 'b Object_scheme \<Rightarrow> 'w \<Rightarrow>
     error option \<times> 'b Object_scheme \<times> 'w" where
  "GCEInsert s si key obj w =
     (let rk = \<lparr>Operation = ''Insert'', Version = ServiceInfo.Version si, Target = Object si\<rparr>;
          w1 = snd (RateLimiter s rk w);
          (projectID, w2) = ProjectRouter s (ServiceInfo.Version si) (Service si) w1;
          obj1 = obj\<lparr>Name := Key.Name key\<rparr>;
          call = InsertCall si projectID key obj1;
          ((op, err), w3) = OperationDo s call w2
      in case err of
           Some e \<Rightarrow> (Some e, obj1, w3)
         | None \<Rightarrow> (let (res, w4) = WaitForCompletion s op w3 in (res, obj1, w4)))"

definition GCEDelete ::
  "('o, 'a, 'p, 'v, 'w) Service \<Rightarrow> ServiceInfo \<Rightarrow> Key \<Rightarrow> 'w \<Rightarrow> error option \<times> 'w" where
  "GCEDelete s si key w =
     (let rk = \<lparr>Operation = ''Delete'', Version = ServiceInfo.Version si, Target = Object si\<rparr>;
          w1 = snd (RateLimiter s rk w);
          (projectID, w2) = ProjectRouter s (ServiceInfo.Version si) (Service si) w1;
          call = DeleteCall si projectID key;
          ((op, err), w3) = OperationDo s call w2
      in case err of
           Some e \<Rightarrow> (Some e, w3)
         | None \<Rightarrow> WaitForCompletion s op w3)"

definition GCEMethod ::
  "('o, 'a, 'p, 'v, 'w) Service \<Rightarrow> ServiceInfo \<Rightarrow> Method \<Rightarrow> Key \<Rightarrow> 'a list \<Rightarrow> 'w \<Rightarrow>
     'v MethodResult \<times> 'w" where
  "GCEMethod s si meth key args w =
     (let rk = \<lparr>Operation = Method.Name meth, Version = ServiceInfo.Version si,
                Target = Object si\<rparr>;
          w1 = snd (RateLimiter s rk w);
          (projectID, w2) = ProjectRouter s (ServiceInfo.Version si) (Service si) w1;
          call = MethodCall si meth projectID key args
      in
      if ReturnType meth = ''Operation'' then
        (let ((op, err), w3) = OperationDo s call w2 in
         case err of
           Some e \<Rightarrow> (OperationResult (Some e), w3)
         | None \<Rightarrow> (let (res, w4) = WaitForCompletion s op w3 in (OperationResult res, w4)))
      else
        (let ((v, err), w3) = ValueDo s call w2 in (ValueResult v err, w3)))"

text \<open>
  Modelled from the spec: \<^verbatim>\<open>cloud.NopRateLimiter\<close>, which the runner installs, is not among
  the sources. It is the no-op rate limiter of the spec (4.3), which succeeds at once.
\<close>

definition NopRateLimiter :: "RateLimitKey \<Rightarrow> 'w \<Rightarrow> error option \<times> 'w" where
  "NopRateLimiter rk w = (None, w)"

subsection \<open>Values for the examples\<close>

text \<open>
  The firewalls service of the runner (a global resource type), a mock of it with two
  hooks, and a service whose world is the list of the calls it has received and
  whose answers are fixed: the rate limiter answers \<open>a\<close>, a call that returns an operation
  answers the handle \<open>7\<close> with the error \<open>d\<close>, the waiter answers \<open>r\<close>.
\<close>

definition Firewalls :: ServiceInfo where
  "Firewalls = \<lparr>Object = ''Firewall'', Service = ''Firewalls'', Version = ''ga'',
                VersionField = ''GA'', keyType = Global, MockWrapType = ''MockFirewalls''\<rparr>"

abbreviation noHooks :: "(Object, unit, string, string) MockHooks" where
  "noHooks \<equiv> NewMockHooks"

abbreviation emptyMock :: "(Object, unit) Mock" where
  "emptyMock \<equiv> NewMock"

definition ghostHook ::
  "(Object, unit) Mock \<Rightarrow> Key \<Rightarrow> (bool \<times> Object option \<times> error option) \<times> (Object, unit) Mock" where
  "ghostHook m key = ((True, Some \<lparr>Name = ''ghost''\<rparr>, None), m)"

definition passHook ::
  "(Object, unit) Mock \<Rightarrow> Key \<Rightarrow> (bool \<times> Object option \<times> error option) \<times> (Object, unit) Mock" where
  "passHook m key = ((False, None, None), m)"

definition logService ::
  "error option \<Rightarrow> error option \<Rightarrow> error option \<Rightarrow>
     (Object, string, nat, string, string list) Service" where
  "logService a d r =
     \<lparr>RateLimiter = (\<lambda>rk w. (a, w @ [''Accept '' @ Operation rk])),
      ProjectRouter = (\<lambda>version service w. (''bowei-gke'', w @ [''ProjectID''])),
      GetDo = (\<lambda>call w. ((Some \<lparr>Name = ''abc''\<rparr>, None), w @ [CallMethod call])),
      Pages = (\<lambda>call w.
        (([[\<lparr>Name = ''abc''\<rparr>], [\<lparr>Name = ''def''\<rparr>]], None), w @ [CallMethod call])),
      OperationDo = (\<lambda>call w. ((Some 7, d), w @ [CallMethod call])),
      ValueDo = (\<lambda>call w. ((Some ''value'', None), w @ [CallMethod call])),
      WaitForCompletion = (\<lambda>op w. (r, w @ [''WaitForCompletion'']))\<rparr>"

section \<open>Properties of the resource URL parser\<close>

subsection \<open>Splitting and joining\<close>

lemma Split_not_Nil: "Split s sep \<noteq> []"
  by (induction s) (auto split: list.splits)

lemma Split_segment: "sep \<notin> set a \<Longrightarrow> Split (a @ sep # rest) sep = a # Split rest sep"
  by (induction a) (auto split: list.splits)

lemma Split_last: "sep \<notin> set a \<Longrightarrow> Split a sep = [a]"
  by (induction a) (auto split: list.splits)

lemma join_Split: "join (Split s (CHR ''/'')) = s"
proof (induction s)
  case Nil
  show ?case by simp
next
  case (Cons c cs)
  obtain p ps where ps: "Split cs (CHR ''/'') = p # ps"
    using Split_not_Nil [of cs "CHR ''/''"] by (cases "Split cs (CHR ''/'')") auto
  show ?case using Cons ps by (cases ps) auto
qed

lemma Split_segments: "p \<in> set (Split s sep) \<Longrightarrow> sep \<notin> set p"
  by (induction s arbitrary: p) (auto split: if_splits list.splits)

lemma stripPrefix_Inr: "\<exists>u. stripPrefix url pres e = Inr u"
  by (induction pres) (auto simp: HasPrefix_def dest: prefix_length_le)

lemma stripPrefix_cases:
  "stripPrefix url pres e = Inr u \<Longrightarrow> u = url \<or> (\<exists>pre\<in>set pres. url = pre @ u)"
proof (induction pres)
  case Nil
  then show ?case by simp
next
  case (Cons pre pres)
  show ?case
  proof (cases "HasPrefix url pre")
    case True
    then obtain r where "url = pre @ r" by (auto simp: HasPrefix_def prefix_def)
    with True Cons.prems show ?thesis by (auto split: if_splits)
  next
    case False
    with Cons show ?thesis by auto
  qed
qed

subsection \<open>What the shape matching accepts\<close>

lemma len2: "length xs = 2 \<longleftrightarrow> (\<exists>a b. xs = [a, b])"
  by (auto simp: numeral_eq_Suc length_Suc_conv)
lemma len4: "length xs = 4 \<longleftrightarrow> (\<exists>a b c d. xs = [a, b, c, d])"
  by (auto simp: numeral_eq_Suc length_Suc_conv)
lemma len5: "length xs = 5 \<longleftrightarrow> (\<exists>a b c d e. xs = [a, b, c, d, e])"
  by (auto simp: numeral_eq_Suc length_Suc_conv)
lemma len6: "length xs = 6 \<longleftrightarrow> (\<exists>a b c d e f. xs = [a, b, c, d, e, f])"
  by (auto simp: numeral_eq_Suc length_Suc_conv)

lemma shapes_projects: "segment proj \<Longrightarrow> ''projects/'' @ proj \<in> shapes"
  by (auto simp: shapes_def)
lemma shapes_regions: "segment proj \<Longrightarrow> segment region \<Longrightarrow> ''projects/'' @ proj @ ''/regions/'' @ region \<in> shapes"
  unfolding shapes_def by blast
lemma shapes_zones: "segment proj \<Longrightarrow> segment zone \<Longrightarrow> ''projects/'' @ proj @ ''/zones/'' @ zone \<in> shapes"
  unfolding shapes_def by blast
lemma shapes_global: "segment proj \<Longrightarrow> segment ty \<Longrightarrow> segment name \<Longrightarrow>
   ''projects/'' @ proj @ ''/global/'' @ ty @ ''/'' @ name \<in> shapes"
  unfolding shapes_def by blast
lemma shapes_regional: "segment proj \<Longrightarrow> segment region \<Longrightarrow> segment ty \<Longrightarrow> segment name \<Longrightarrow>
   ''projects/'' @ proj @ ''/regions/'' @ region @ ''/'' @ ty @ ''/'' @ name \<in> shapes"
  unfolding shapes_def by blast
lemma shapes_zonal: "segment proj \<Longrightarrow> segment zone \<Longrightarrow> segment ty \<Longrightarrow> segment name \<Longrightarrow>
   ''projects/'' @ proj @ ''/zones/'' @ zone @ ''/'' @ ty @ ''/'' @ name \<in> shapes"
  unfolding shapes_def by blast

lemma parseParts_cases:
  "parseParts u e = (None, Some e) \<or> (\<exists>r. parseParts u e = (Some r, None) \<and> u \<in> shapes)"
proof -
  define parts where "parts = Split u (CHR ''/'')"
  have u: "u = join parts" by (simp add: parts_def join_Split)
  have seg: "\<forall>p\<in>set parts. segment p"
    by (auto simp: parts_def segment_def dest: Split_segments)
  have pp: "parseParts u e = (None, Some e) \<or> (\<exists>r. parseParts u e = (Some r, None) \<and> 
     parts ! 0 = ''projects'' \<and> (length parts = 2 \<or> length parts = 4 \<and> (parts ! 2 = ''regions'' \<or> parts ! 2 = ''zones'')
       \<or> length parts = 5 \<and> parts ! 2 = ''global'' \<or> length parts = 6 \<and> (parts ! 2 = ''regions'' \<or> parts ! 2 = ''zones'')))"
    unfolding parseParts_def parts_def [symmetric] Let_def by simp
  show ?thesis
  proof (cases "parseParts u e = (None, Some e)")
    case True then show ?thesis by simp
  next
    case False
    with pp obtain r where r: "parseParts u e = (Some r, None)" and p0: "parts ! 0 = ''projects''"
      and sh: "length parts = 2 \<or> length parts = 4 \<and> (parts ! 2 = ''regions'' \<or> parts ! 2 = ''zones'')
       \<or> length parts = 5 \<and> parts ! 2 = ''global'' \<or> length parts = 6 \<and> (parts ! 2 = ''regions'' \<or> parts ! 2 = ''zones'')"
      by blast
    from sh have "join parts \<in> shapes"
    proof (elim disjE conjE)
      assume "length parts = 2"
      then obtain a b where "parts = [a, b]" by (auto simp: len2)
      with p0 seg shapes_projects [of b] show ?thesis by simp
    next
      assume "length parts = 4" "parts ! 2 = ''regions''"
      then obtain a b c d where "parts = [a, b, c, d]" by (auto simp: len4)
      with p0 seg \<open>parts ! 2 = ''regions''\<close> shapes_regions [of b d] show ?thesis by simp
    next
      assume "length parts = 4" "parts ! 2 = ''zones''"
      then obtain a b c d where "parts = [a, b, c, d]" by (auto simp: len4)
      with p0 seg \<open>parts ! 2 = ''zones''\<close> shapes_zones [of b d] show ?thesis by simp
    next
      assume "length parts = 5" "parts ! 2 = ''global''"
      then obtain a b c d f where "parts = [a, b, c, d, f]" by (auto simp: len5)
      with p0 seg \<open>parts ! 2 = ''global''\<close> shapes_global [of b d f] show ?thesis by simp
    next
      assume "length parts = 6" "parts ! 2 = ''regions''"
      then obtain a b c d f g where "parts = [a, b, c, d, f, g]" by (auto simp: len6)
      with p0 seg \<open>parts ! 2 = ''regions''\<close> shapes_regional [of b d f g] show ?thesis by simp
    next
      assume "length parts = 6" "parts ! 2 = ''zones''"
      then obtain a b c d f g where "parts = [a, b, c, d, f, g]" by (auto simp: len6)
      with p0 seg \<open>parts ! 2 = ''zones''\<close> shapes_zonal [of b d f g] show ?thesis by simp
    qed
    with u r show ?thesis by simp
  qed
qed

subsection \<open>The known prefixes and the six shapes\<close>

lemma prefixes_distinct:
  "\<not> HasPrefix (alphaPrefix @ r) gaPrefix" "\<not> HasPrefix (betaPrefix @ r) gaPrefix"
  "\<not> HasPrefix (betaPrefix @ r) alphaPrefix"
  "\<not> HasPrefix (''projects/'' @ r) gaPrefix" "\<not> HasPrefix (''projects/'' @ r) alphaPrefix"
  "\<not> HasPrefix (''projects/'' @ r) betaPrefix"
  by (simp_all add: HasPrefix_def gaPrefix_def alphaPrefix_def betaPrefix_def)

lemma stripPrefix_known:
  assumes "pre = [] \<or> pre \<in> set allPrefixes"
  shows "stripPrefix (pre @ ''projects/'' @ r) allPrefixes e = Inr (''projects/'' @ r)"
proof -
  from assms consider "pre = []" | "pre = gaPrefix" | "pre = alphaPrefix" | "pre = betaPrefix"
    by (auto simp: allPrefixes_def)
  then show ?thesis
  proof cases
    case 1
    then show ?thesis using prefixes_distinct(4-6) [of r] by (simp add: allPrefixes_def)
  next
    case 2
    then show ?thesis by (simp add: allPrefixes_def HasPrefix_def)
  next
    case 3
    then show ?thesis using prefixes_distinct(1) [of "''projects/'' @ r"]
      by (simp add: allPrefixes_def HasPrefix_def)
  next
    case 4
    then show ?thesis using prefixes_distinct(2,3) [of "''projects/'' @ r"]
      by (simp add: allPrefixes_def HasPrefix_def)
  qed
qed

lemma parseParts_projects:
  "segment proj \<Longrightarrow> parseParts (''projects/'' @ proj) e =
     (Some \<lparr>ProjectID = proj, Resource = ''projects'', Key = None\<rparr>, None)"
  by (simp add: parseParts_def segment_def Split_last)

lemma parseParts_regions:
  "segment proj \<Longrightarrow> segment region \<Longrightarrow> parseParts (''projects/'' @ proj @ ''/regions/'' @ region) e =
     (Some \<lparr>ProjectID = proj, Resource = ''regions'', Key = Some (GlobalKey region)\<rparr>, None)"
  by (simp add: parseParts_def segment_def Split_last Split_segment)

lemma parseParts_zones:
  "segment proj \<Longrightarrow> segment zone \<Longrightarrow> parseParts (''projects/'' @ proj @ ''/zones/'' @ zone) e =
     (Some \<lparr>ProjectID = proj, Resource = ''zones'', Key = Some (GlobalKey zone)\<rparr>, None)"
  by (simp add: parseParts_def segment_def Split_last Split_segment)

lemma parseParts_global:
  "segment proj \<Longrightarrow> segment ty \<Longrightarrow> segment name \<Longrightarrow>
   parseParts (''projects/'' @ proj @ ''/global/'' @ ty @ ''/'' @ name) e =
     (Some \<lparr>ProjectID = proj, Resource = ty, Key = Some (GlobalKey name)\<rparr>, None)"
  by (simp add: parseParts_def segment_def Split_last Split_segment)

lemma parseParts_regional:
  "segment proj \<Longrightarrow> segment region \<Longrightarrow> segment ty \<Longrightarrow> segment name \<Longrightarrow>
   parseParts (''projects/'' @ proj @ ''/regions/'' @ region @ ''/'' @ ty @ ''/'' @ name) e =
     (Some \<lparr>ProjectID = proj, Resource = ty, Key = Some (RegionalKey name region)\<rparr>, None)"
  by (simp add: parseParts_def segment_def Split_last Split_segment)

lemma parseParts_zonal:
  "segment proj \<Longrightarrow> segment zone \<Longrightarrow> segment ty \<Longrightarrow> segment name \<Longrightarrow>
   parseParts (''projects/'' @ proj @ ''/zones/'' @ zone @ ''/'' @ ty @ ''/'' @ name) e =
     (Some \<lparr>ProjectID = proj, Resource = ty, Key = Some (ZonalKey name zone)\<rparr>, None)"
  by (simp add: parseParts_def segment_def Split_last Split_segment)

lemma ParseResourceURL_strip:
  "pre = [] \<or> pre \<in> set allPrefixes \<Longrightarrow>
   ParseResourceURL (pre @ ''projects/'' @ r) =
     parseParts (''projects/'' @ r)
       (Errorf ''%q is not a valid resource URL'' [StringArg (pre @ ''projects/'' @ r)])"
  using stripPrefix_known [of pre r] by (simp add: ParseResourceURL_def)

lemma shapes_begin: "s \<in> shapes \<Longrightarrow> \<exists>r. s = ''projects/'' @ r"
  by (auto simp: shapes_def)

lemma accepted_no_error:
  assumes "accepted url"
  shows "snd (ParseResourceURL url) = None"
proof -
  from assms obtain pre s where pre: "pre = [] \<or> pre \<in> set allPrefixes" and s: "s \<in> shapes"
    and url: "url = pre @ s" by (auto simp: accepted_def)
  from s obtain r where r: "s = ''projects/'' @ r" using shapes_begin by blast
  let ?e = "Errorf ''%q is not a valid resource URL'' [StringArg url]"
  have "ParseResourceURL url = parseParts s ?e"
    using ParseResourceURL_strip [OF pre, of r] url r by simp
  moreover have "snd (parseParts s ?e) = None"
    using s unfolding shapes_def
    by (auto simp only: Un_iff mem_Collect_eq parseParts_projects parseParts_regions
        parseParts_zones parseParts_global parseParts_regional parseParts_zonal snd_conv)
  ultimately show ?thesis by simp
qed

lemmas parser_eval =
  ParseResourceURL_def parseParts_def allPrefixes_def gaPrefix_def alphaPrefix_def
  betaPrefix_def HasPrefix_def

text \<open>
  C1. A string of one of the six shapes, alone or after one of the three known prefixes,
  parses without error to the \<open>ResourceID\<close> of its segments: the project, the resource
  type, and no key for the bare \<^verbatim>\<open>projects\<close> shape, a global key for the \<^verbatim>\<open>regions\<close>,
  \<^verbatim>\<open>zones\<close> and \<^verbatim>\<open>global\<close> shapes, a regional or zonal key with the location segment for
  the shapes of six segments.
\<close>

theorem ParseResourceURL_shapes:
  assumes "pre = [] \<or> pre \<in> set allPrefixes"
    and "segment proj" and "segment loc" and "segment ty" and "segment name"
  shows "ParseResourceURL (pre @ ''projects/'' @ proj) =
           (Some \<lparr>ProjectID = proj, Resource = ''projects'', Key = None\<rparr>, None)
       \<and> ParseResourceURL (pre @ ''projects/'' @ proj @ ''/regions/'' @ loc) =
           (Some \<lparr>ProjectID = proj, Resource = ''regions'', Key = Some (GlobalKey loc)\<rparr>, None)
       \<and> ParseResourceURL (pre @ ''projects/'' @ proj @ ''/zones/'' @ loc) =
           (Some \<lparr>ProjectID = proj, Resource = ''zones'', Key = Some (GlobalKey loc)\<rparr>, None)
       \<and> ParseResourceURL (pre @ ''projects/'' @ proj @ ''/global/'' @ ty @ ''/'' @ name) =
           (Some \<lparr>ProjectID = proj, Resource = ty, Key = Some (GlobalKey name)\<rparr>, None)
       \<and> ParseResourceURL
           (pre @ ''projects/'' @ proj @ ''/regions/'' @ loc @ ''/'' @ ty @ ''/'' @ name) =
           (Some \<lparr>ProjectID = proj, Resource = ty, Key = Some (RegionalKey name loc)\<rparr>, None)
       \<and> ParseResourceURL
           (pre @ ''projects/'' @ proj @ ''/zones/'' @ loc @ ''/'' @ ty @ ''/'' @ name) =
           (Some \<lparr>ProjectID = proj, Resource = ty, Key = Some (ZonalKey name loc)\<rparr>, None)"
  using assms
  by (simp only: ParseResourceURL_strip parseParts_projects parseParts_regions parseParts_zones
      parseParts_global parseParts_regional parseParts_zonal simp_thms)

theorem ParseResourceURL_shapes_witness:
  "alphaPrefix \<in> set allPrefixes \<and> segment ''p1'' \<and> segment ''us-central1-b''
   \<and> segment ''instances'' \<and> segment ''vm-1''
   \<and> ParseResourceURL (alphaPrefix @ ''projects/p1'') =
       (Some \<lparr>ProjectID = ''p1'', Resource = ''projects'', Key = None\<rparr>, None)
   \<and> ParseResourceURL (alphaPrefix @ ''projects/p1/zones/us-central1-b'') =
       (Some \<lparr>ProjectID = ''p1'', Resource = ''zones'',
               Key = Some (GlobalKey ''us-central1-b'')\<rparr>, None)
   \<and> ParseResourceURL (alphaPrefix @ ''projects/p1/zones/us-central1-b/instances/vm-1'') =
       (Some \<lparr>ProjectID = ''p1'', Resource = ''instances'',
               Key = Some (ZonalKey ''vm-1'' ''us-central1-b'')\<rparr>, None)"
  using ParseResourceURL_shapes [of alphaPrefix "''p1''" "''us-central1-b''" "''instances''" "''vm-1''"]
  by (simp add: allPrefixes_def segment_def)

text \<open>
  C2. A string that is not of an accepted shape is rejected: the parser returns a nil
  \<open>ResourceID\<close> and the error \<^verbatim>\<open>"%q is not a valid resource URL"\<close> formatted with the
  input as it was given.
\<close>

theorem ParseResourceURL_rejects:
  assumes "\<not> accepted url"
  shows "ParseResourceURL url =
           (None, Some (Errorf ''%q is not a valid resource URL'' [StringArg url]))"
proof -
  let ?e = "Errorf ''%q is not a valid resource URL'' [StringArg url]"
  obtain u where u: "stripPrefix url allPrefixes ?e = Inr u"
    using stripPrefix_Inr by blast
  then have P: "ParseResourceURL url = parseParts u ?e"
    by (simp add: ParseResourceURL_def)
  from stripPrefix_cases [OF u]
  have pre: "\<exists>pre. (pre = [] \<or> pre \<in> set allPrefixes) \<and> url = pre @ u"
    by auto
  from parseParts_cases [of u ?e] show ?thesis
  proof
    assume "parseParts u ?e = (None, Some ?e)"
    with P show ?thesis by simp
  next
    assume "\<exists>r. parseParts u ?e = (Some r, None) \<and> u \<in> shapes"
    with pre have "accepted url" by (auto simp: accepted_def)
    with assms show ?thesis by simp
  qed
qed

lemma not_accepted_global: "\<not> accepted ''projects/p1/global''"
proof
  assume "accepted ''projects/p1/global''"
  from accepted_no_error [OF this] show False by (simp add: parser_eval)
qed

lemma not_accepted_gamma:
  "\<not> accepted ''https://www.googleapis.com/compute/gamma/projects/p1/global/addresses/name''"
proof
  assume "accepted ''https://www.googleapis.com/compute/gamma/projects/p1/global/addresses/name''"
  from accepted_no_error [OF this] show False by (simp add: parser_eval)
qed

lemma not_accepted_empty: "\<not> accepted []"
proof
  assume "accepted []"
  from accepted_no_error [OF this] show False by (simp add: parser_eval)
qed

lemma not_accepted_extra: "\<not> accepted ''projects/p1/zones/z/res/name/extra''"
proof
  assume "accepted ''projects/p1/zones/z/res/name/extra''"
  from accepted_no_error [OF this] show False by (simp add: parser_eval)
qed

theorem ParseResourceURL_rejects_witness:
  "\<not> accepted ''projects/p1/global''
   \<and> ParseResourceURL ''projects/p1/global'' =
       (None, Some (Errorf ''%q is not a valid resource URL'' [StringArg ''projects/p1/global'']))
   \<and> \<not> accepted []
   \<and> ParseResourceURL [] =
       (None, Some (Errorf ''%q is not a valid resource URL'' [StringArg []]))
   \<and> \<not> accepted ''projects/p1/zones/z/res/name/extra''
   \<and> ParseResourceURL ''projects/p1/zones/z/res/name/extra'' =
       (None, Some (Errorf ''%q is not a valid resource URL''
          [StringArg ''projects/p1/zones/z/res/name/extra'']))
   \<and> \<not> accepted ''https://www.googleapis.com/compute/gamma/projects/p1/global/addresses/name''
   \<and> ParseResourceURL
        ''https://www.googleapis.com/compute/gamma/projects/p1/global/addresses/name'' =
       (None, Some (Errorf ''%q is not a valid resource URL''
          [StringArg ''https://www.googleapis.com/compute/gamma/projects/p1/global/addresses/name'']))"
  using ParseResourceURL_rejects [OF not_accepted_global]
    ParseResourceURL_rejects [OF not_accepted_empty]
    ParseResourceURL_rejects [OF not_accepted_extra]
    ParseResourceURL_rejects [OF not_accepted_gamma]
    not_accepted_global not_accepted_empty not_accepted_extra not_accepted_gamma
  by simp

text \<open>
  C9. The error return inside the prefix loop is dead code: a string that begins with a
  prefix is at least as long as the prefix, so the loop always leaves a string, and the
  parser's result is that of the shape matching on that string.
\<close>

theorem stripPrefix_never_fails:
  "(HasPrefix url pre \<longrightarrow> \<not> length url < length pre)
   \<and> (\<exists>url'. stripPrefix url allPrefixes e = Inr url'
        \<and> (e = Errorf ''%q is not a valid resource URL'' [StringArg url] \<longrightarrow>
             ParseResourceURL url = parseParts url' e))"
proof -
  have "HasPrefix url pre \<longrightarrow> \<not> length url < length pre"
    by (auto simp: HasPrefix_def dest: prefix_length_le)
  moreover obtain url' where "stripPrefix url allPrefixes e = Inr url'"
    using stripPrefix_Inr by blast
  ultimately show ?thesis by (auto simp: ParseResourceURL_def)
qed

theorem stripPrefix_never_fails_witness:
  "HasPrefix (gaPrefix @ ''projects/p1/global'') gaPrefix
   \<and> \<not> length (gaPrefix @ ''projects/p1/global'') < length gaPrefix
   \<and> stripPrefix (gaPrefix @ ''projects/p1/global'') allPrefixes
        (Errorf ''%q is not a valid resource URL'' [StringArg (gaPrefix @ ''projects/p1/global'')])
       = Inr ''projects/p1/global''
   \<and> ParseResourceURL (gaPrefix @ ''projects/p1/global'') =
       parseParts ''projects/p1/global''
         (Errorf ''%q is not a valid resource URL'' [StringArg (gaPrefix @ ''projects/p1/global'')])"
  using stripPrefix_never_fails [of "gaPrefix @ ''projects/p1/global''" gaPrefix
      "Errorf ''%q is not a valid resource URL'' [StringArg (gaPrefix @ ''projects/p1/global'')]"]
  by (auto simp: HasPrefix_def allPrefixes_def)

section \<open>Properties of the mock adapter\<close>

subsection \<open>The default logic, when no hook is set\<close>

lemma MockInsert_default:
  "InsertHook hooks = None \<Longrightarrow> MockInsert hooks si m key obj =
     (case InsertError m key of
        Some err \<Rightarrow> (err, m)
      | None \<Rightarrow>
         (case Objects m key of
            Some old \<Rightarrow>
              (Some (googleapi_Error StatusConflict
                 (Sprintf (MockWrapType si @ '' %v exists'') [KeyArg key])), m)
          | None \<Rightarrow> (None, m\<lparr>Objects := (Objects m)(key \<mapsto> obj)\<rparr>)))"
  by (simp add: MockInsert_def)

lemma MockGet_default:
  "GetHook hooks = None \<Longrightarrow> MockGet hooks si m key =
     (case GetError m key of
        Some err \<Rightarrow> ((None, err), m)
      | None \<Rightarrow>
         (case Objects m key of
            Some obj \<Rightarrow> ((Some obj, None), m)
          | None \<Rightarrow>
             ((None, Some (googleapi_Error StatusNotFound
                 (Sprintf (MockWrapType si @ '' %v not found'') [KeyArg key]))), m)))"
  by (simp add: MockGet_def)

lemma MockDelete_default:
  "DeleteHook hooks = None \<Longrightarrow> MockDelete hooks si m key =
     (case DeleteError m key of
        Some err \<Rightarrow> (err, m)
      | None \<Rightarrow>
         (case Objects m key of
            None \<Rightarrow>
              (Some (googleapi_Error StatusNotFound
                 (Sprintf (MockWrapType si @ '' %v not found'') [KeyArg key])), m)
          | Some old \<Rightarrow> (None, m\<lparr>Objects := (Objects m)(key := None)\<rparr>)))"
  by (simp add: MockDelete_def)

subsection \<open>Insert, get and delete\<close>

text \<open>
  C6. Without an insert hook and without an injected insert error for the key, an insert
  under a key that is in the store fails with a \<^verbatim>\<open>googleapi.Error\<close> of code 409
  (\<^verbatim>\<open>http.StatusConflict\<close>) whose message is \<^verbatim>\<open>"<MockWrapType> %v exists"\<close> formatted with
  the key, and leaves the mock as it was. So a second insert under the key of a first
  one fails so and leaves the mock as the first insert left it.
\<close>

theorem MockInsert_AlreadyExists:
  assumes "InsertHook hooks = None" and "InsertError m key = None"
  shows "(Objects m key \<noteq> None \<longrightarrow>
            MockInsert hooks si m key obj =
              (Some (googleapi_Error 409 (Sprintf (MockWrapType si @ '' %v exists'') [KeyArg key])), m))
       \<and> (let m1 = snd (MockInsert hooks si m key obj) in
            MockInsert hooks si m1 key obj' =
              (Some (googleapi_Error 409 (Sprintf (MockWrapType si @ '' %v exists'') [KeyArg key])), m1))"
  using assms by (auto simp: MockInsert_default StatusConflict_def Let_def split: option.splits)

theorem MockInsert_AlreadyExists_witness:
  "InsertHook noHooks = None \<and> InsertError emptyMock (GlobalKey ''abc'') = None
   \<and> Objects (snd (MockInsert noHooks Firewalls emptyMock (GlobalKey ''abc'') \<lparr>Name = ''fw1''\<rparr>))
        (GlobalKey ''abc'') \<noteq> None
   \<and> MockInsert noHooks Firewalls
        (snd (MockInsert noHooks Firewalls emptyMock (GlobalKey ''abc'') \<lparr>Name = ''fw1''\<rparr>))
        (GlobalKey ''abc'') \<lparr>Name = ''fw2''\<rparr> =
       (Some (googleapi_Error 409 (Sprintf ''MockFirewalls %v exists'' [KeyArg (GlobalKey ''abc'')])),
        emptyMock\<lparr>Objects := [GlobalKey ''abc'' \<mapsto> \<lparr>Name = ''fw1''\<rparr>]\<rparr>)"
  using MockInsert_AlreadyExists [of noHooks emptyMock "GlobalKey ''abc''" Firewalls "\<lparr>Name = ''fw1''\<rparr>" "\<lparr>Name = ''fw2''\<rparr>"]
  by (simp add: NewMockHooks_def NewMock_def MockInsert_def Firewalls_def)

text \<open>
  C7, as the claim states it, does not hold: an insert under a key that is in the store
  fails (C6), and the get that follows returns the object stored before, not the one
  given to the insert.
\<close>

theorem MockInsert_then_Get_counterexample:
  "GetHook noHooks = None \<and> InsertHook noHooks = None
   \<and> GetError (emptyMock\<lparr>Objects := [GlobalKey ''abc'' \<mapsto> \<lparr>Name = ''fw1''\<rparr>]\<rparr>)
        (GlobalKey ''abc'') = None
   \<and> InsertError (emptyMock\<lparr>Objects := [GlobalKey ''abc'' \<mapsto> \<lparr>Name = ''fw1''\<rparr>]\<rparr>)
        (GlobalKey ''abc'') = None
   \<and> fst (MockGet noHooks Firewalls
        (snd (MockInsert noHooks Firewalls
           (emptyMock\<lparr>Objects := [GlobalKey ''abc'' \<mapsto> \<lparr>Name = ''fw1''\<rparr>]\<rparr>)
           (GlobalKey ''abc'') \<lparr>Name = ''fw2''\<rparr>))
        (GlobalKey ''abc'')) = (Some \<lparr>Name = ''fw1''\<rparr>, None)
   \<and> fst (MockGet noHooks Firewalls
        (snd (MockInsert noHooks Firewalls
           (emptyMock\<lparr>Objects := [GlobalKey ''abc'' \<mapsto> \<lparr>Name = ''fw1''\<rparr>]\<rparr>)
           (GlobalKey ''abc'') \<lparr>Name = ''fw2''\<rparr>))
        (GlobalKey ''abc'')) \<noteq> (Some \<lparr>Name = ''fw2''\<rparr>, None)"
  by (simp add: NewMockHooks_def NewMock_def MockInsert_def MockGet_def)

text \<open>
  C7, amended. Without hooks and without injected errors for the key: an insert under a
  key that is not in the store succeeds, and the get that follows returns the object
  given to the insert; a delete of a key that is in the store succeeds, and the get that
  follows fails with a \<^verbatim>\<open>googleapi.Error\<close> of code 404 (\<^verbatim>\<open>http.StatusNotFound\<close>).
\<close>

theorem MockInsert_Delete_then_Get:
  assumes "GetHook hooks = None" and "InsertHook hooks = None" and "DeleteHook hooks = None"
    and "GetError m key = None" and "InsertError m key = None" and "DeleteError m key = None"
  shows "(Objects m key = None \<longrightarrow>
            fst (MockInsert hooks si m key obj) = None
          \<and> fst (MockGet hooks si (snd (MockInsert hooks si m key obj)) key) = (Some obj, None))
       \<and> (Objects m key \<noteq> None \<longrightarrow>
            fst (MockDelete hooks si m key) = None
          \<and> fst (MockGet hooks si (snd (MockDelete hooks si m key)) key) =
              (None, Some (googleapi_Error 404
                 (Sprintf (MockWrapType si @ '' %v not found'') [KeyArg key]))))"
  using assms
  by (auto simp: MockInsert_default MockGet_default MockDelete_default StatusNotFound_def)

theorem MockInsert_Delete_then_Get_witness:
  "GetHook noHooks = None \<and> InsertHook noHooks = None \<and> DeleteHook noHooks = None
   \<and> Objects emptyMock (GlobalKey ''abc'') = None
   \<and> fst (MockGet noHooks Firewalls
        (snd (MockInsert noHooks Firewalls emptyMock (GlobalKey ''abc'') \<lparr>Name = ''fw1''\<rparr>))
        (GlobalKey ''abc'')) = (Some \<lparr>Name = ''fw1''\<rparr>, None)
   \<and> Objects (emptyMock\<lparr>Objects := [GlobalKey ''abc'' \<mapsto> \<lparr>Name = ''fw1''\<rparr>]\<rparr>) (GlobalKey ''abc'') \<noteq> None
   \<and> fst (MockGet noHooks Firewalls
        (snd (MockDelete noHooks Firewalls
           (emptyMock\<lparr>Objects := [GlobalKey ''abc'' \<mapsto> \<lparr>Name = ''fw1''\<rparr>]\<rparr>) (GlobalKey ''abc'')))
        (GlobalKey ''abc'')) =
       (None, Some (googleapi_Error 404
          (Sprintf ''MockFirewalls %v not found'' [KeyArg (GlobalKey ''abc'')])))"
  using MockInsert_Delete_then_Get [of noHooks emptyMock "GlobalKey ''abc''" Firewalls "\<lparr>Name = ''fw1''\<rparr>"]
    MockInsert_Delete_then_Get [of noHooks "emptyMock\<lparr>Objects := [GlobalKey ''abc'' \<mapsto> \<lparr>Name = ''fw1''\<rparr>]\<rparr>"
      "GlobalKey ''abc''" Firewalls "\<lparr>Name = ''fw1''\<rparr>"]
  by (simp add: NewMockHooks_def NewMock_def Firewalls_def)

subsection \<open>Hooks\<close>

text \<open>
  C8. When a hook is set for \<^verbatim>\<open>Get\<close>, \<^verbatim>\<open>List\<close>, \<^verbatim>\<open>Insert\<close> or \<^verbatim>\<open>Delete\<close>, the operation
  calls it first. If the hook answers \<^verbatim>\<open>intercept\<close>, the operation returns the hook's
  results and leaves the mock as the hook left it, whatever the store and the injected
  errors hold; otherwise the operation goes on as the one without the hook does, on the
  mock as the hook left it.
\<close>

theorem Mock_hook_first_refusal:
  "(GetHook hooks = Some gh \<and> gh m key = ((intercept, obj, err), m') \<longrightarrow>
      MockGet hooks si m key =
        (if intercept then ((obj, err), m') else MockGet (hooks\<lparr>GetHook := None\<rparr>) si m' key))
   \<and> (ListHook hooks = Some lh \<and> lh m = ((intercept, objs, err), m') \<longrightarrow>
      MockList hooks si m loc order =
        (if intercept then ((objs, err), m')
         else MockList (hooks\<lparr>ListHook := None\<rparr>) si m' loc order))
   \<and> (InsertHook hooks = Some ih \<and> ih m key new = ((intercept, err), m') \<longrightarrow>
      MockInsert hooks si m key new =
        (if intercept then (err, m') else MockInsert (hooks\<lparr>InsertHook := None\<rparr>) si m' key new))
   \<and> (DeleteHook hooks = Some dh \<and> dh m key = ((intercept, err), m') \<longrightarrow>
      MockDelete hooks si m key =
        (if intercept then (err, m') else MockDelete (hooks\<lparr>DeleteHook := None\<rparr>) si m' key))"
proof (intro conjI impI)
  assume "GetHook hooks = Some gh \<and> gh m key = ((intercept, obj, err), m')"
  then show "MockGet hooks si m key =
      (if intercept then ((obj, err), m') else MockGet (hooks\<lparr>GetHook := None\<rparr>) si m' key)"
    by (simp add: MockGet_def)
next
  assume "ListHook hooks = Some lh \<and> lh m = ((intercept, objs, err), m')"
  then show "MockList hooks si m loc order =
      (if intercept then ((objs, err), m') else MockList (hooks\<lparr>ListHook := None\<rparr>) si m' loc order)"
    by (simp add: MockList_def)
next
  assume "InsertHook hooks = Some ih \<and> ih m key new = ((intercept, err), m')"
  then show "MockInsert hooks si m key new =
      (if intercept then (err, m') else MockInsert (hooks\<lparr>InsertHook := None\<rparr>) si m' key new)"
    by (simp add: MockInsert_def)
next
  assume "DeleteHook hooks = Some dh \<and> dh m key = ((intercept, err), m')"
  then show "MockDelete hooks si m key =
      (if intercept then (err, m') else MockDelete (hooks\<lparr>DeleteHook := None\<rparr>) si m' key)"
    by (simp add: MockDelete_def)
qed

theorem Mock_hook_first_refusal_witness:
  "GetHook (noHooks\<lparr>GetHook := Some ghostHook\<rparr>) = Some ghostHook
   \<and> ghostHook (emptyMock\<lparr>GetError := [GlobalKey ''abc'' \<mapsto> Some (OtherError ''injected'')]\<rparr>)
        (GlobalKey ''abc'') =
       ((True, Some \<lparr>Name = ''ghost''\<rparr>, None),
        emptyMock\<lparr>GetError := [GlobalKey ''abc'' \<mapsto> Some (OtherError ''injected'')]\<rparr>)
   \<and> MockGet (noHooks\<lparr>GetHook := Some ghostHook\<rparr>) Firewalls
        (emptyMock\<lparr>GetError := [GlobalKey ''abc'' \<mapsto> Some (OtherError ''injected'')]\<rparr>)
        (GlobalKey ''abc'') =
       ((Some \<lparr>Name = ''ghost''\<rparr>, None),
        emptyMock\<lparr>GetError := [GlobalKey ''abc'' \<mapsto> Some (OtherError ''injected'')]\<rparr>)
   \<and> MockGet noHooks Firewalls
        (emptyMock\<lparr>GetError := [GlobalKey ''abc'' \<mapsto> Some (OtherError ''injected'')]\<rparr>)
        (GlobalKey ''abc'') =
       ((None, Some (OtherError ''injected'')),
        emptyMock\<lparr>GetError := [GlobalKey ''abc'' \<mapsto> Some (OtherError ''injected'')]\<rparr>)
   \<and> GetHook (noHooks\<lparr>GetHook := Some passHook\<rparr>) = Some passHook
   \<and> passHook emptyMock (GlobalKey ''abc'') = ((False, None, None), emptyMock)
   \<and> MockGet (noHooks\<lparr>GetHook := Some passHook\<rparr>) Firewalls emptyMock (GlobalKey ''abc'') =
       MockGet noHooks Firewalls emptyMock (GlobalKey ''abc'')
   \<and> MockGet noHooks Firewalls emptyMock (GlobalKey ''abc'') =
       ((None, Some (googleapi_Error 404
          (Sprintf ''MockFirewalls %v not found'' [KeyArg (GlobalKey ''abc'')]))), emptyMock)"
  using Mock_hook_first_refusal [of "noHooks\<lparr>GetHook := Some ghostHook\<rparr>" ghostHook
      "emptyMock\<lparr>GetError := [GlobalKey ''abc'' \<mapsto> Some (OtherError ''injected'')]\<rparr>"
      "GlobalKey ''abc''" True "Some \<lparr>Name = ''ghost''\<rparr>" None
      "emptyMock\<lparr>GetError := [GlobalKey ''abc'' \<mapsto> Some (OtherError ''injected'')]\<rparr>" Firewalls]
    Mock_hook_first_refusal [of "noHooks\<lparr>GetHook := Some passHook\<rparr>" passHook emptyMock
      "GlobalKey ''abc''" False None None emptyMock Firewalls]
  by (simp add: ghostHook_def passHook_def NewMockHooks_def MockGet_default StatusNotFound_def
      NewMock_def Firewalls_def)

subsection \<open>Custom verbs\<close>

text \<open>
  C3, as the claim states it, does not hold: a custom verb whose return type is
  \<^verbatim>\<open>Operation\<close> returns nil when its hook is not set.
\<close>

theorem MockMethod_Operation_counterexample:
  "MethodHook noHooks ''AttachDiskHook'' = None
   \<and> MockMethod noHooks
        \<lparr>Method.Name = ''AttachDisk'', ReturnType = ''Operation'',
          MockHookName = ''AttachDiskHook''\<rparr> emptyMock (ZonalKey ''vm-1'' ''us-central1-b'') [] =
       (OperationResult None, emptyMock)"
  by (simp add: NewMockHooks_def MockMethod_def)

text \<open>
  C3, amended. When the hook of a custom verb is not set, the verb fails with the error
  \<^verbatim>\<open>"<MockHookName> must be set"\<close> if its return type is not \<^verbatim>\<open>Operation\<close>, and returns
  nil (success) if its return type is \<^verbatim>\<open>Operation\<close>; the mock is left as it was.
\<close>

theorem MockMethod_no_hook:
  assumes "MethodHook hooks (MockHookName meth) = None"
  shows "MockMethod hooks meth m key args =
           (if ReturnType meth = ''Operation'' then (OperationResult None, m)
            else (ValueResult None (Some (Errorf (MockHookName meth @ '' must be set'') [])), m))"
  using assms by (simp add: MockMethod_def)

theorem MockMethod_no_hook_witness:
  "MethodHook noHooks ''GetHealthHook'' = None
   \<and> MockMethod noHooks
        \<lparr>Method.Name = ''GetHealth'', ReturnType = ''BackendServiceGroupHealth'',
          MockHookName = ''GetHealthHook''\<rparr> emptyMock (GlobalKey ''bs'') [] =
       (ValueResult None (Some (Errorf ''GetHealthHook must be set'' [])), emptyMock)"
  using MockMethod_no_hook [of noHooks "\<lparr>Method.Name = ''GetHealth'',
      ReturnType = ''BackendServiceGroupHealth'', MockHookName = ''GetHealthHook''\<rparr>"
      emptyMock "GlobalKey ''bs''" "[]"]
  by (simp add: NewMockHooks_def)

section \<open>Properties of the real adapter\<close>

text \<open>
  C4, as the claim states it, does not hold: the answer of the rate limiter is dropped.
  With a rate limiter that answers a failure, \<^verbatim>\<open>Get\<close> still resolves the project, issues
  the call and returns what the call returns.
\<close>

theorem GCE_Accept_counterexample:
  "fst (RateLimiter (logService (Some (OtherError ''Throttled'')) None None)
          \<lparr>Operation = ''Get'', Version = ''ga'', Target = ''Firewall''\<rparr> []) =
     Some (OtherError ''Throttled'')
   \<and> GCEGet (logService (Some (OtherError ''Throttled'')) None None) Firewalls (GlobalKey ''abc'') [] =
       ((Some \<lparr>Name = ''abc''\<rparr>, None), [''Accept Get'', ''ProjectID'', ''Get''])"
  by (simp add: logService_def GCEGet_def GetCall_def Firewalls_def)

text \<open>
  C4, amended. Every operation of the real adapter first calls the rate limiter, with the
  \<^verbatim>\<open>RateLimitKey\<close> of the operation's name, the API version and the resource type; it takes
  nothing from the rate limiter's answer. The operation is the one with the no-op rate
  limiter, run in the world the rate limiter leaves.
\<close>

theorem GCE_Accept_first:
  "GCEGet s si key w =
     GCEGet (s\<lparr>RateLimiter := NopRateLimiter\<rparr>) si key
       (snd (RateLimiter s
          \<lparr>Operation = ''Get'', Version = ServiceInfo.Version si, Target = Object si\<rparr> w))
   \<and> GCEList s si loc w =
     GCEList (s\<lparr>RateLimiter := NopRateLimiter\<rparr>) si loc
       (snd (RateLimiter s
          \<lparr>Operation = ''List'', Version = ServiceInfo.Version si, Target = Object si\<rparr> w))
   \<and> GCEInsert s' si key obj w' =
     GCEInsert (s'\<lparr>RateLimiter := NopRateLimiter\<rparr>) si key obj
       (snd (RateLimiter s'
          \<lparr>Operation = ''Insert'', Version = ServiceInfo.Version si, Target = Object si\<rparr> w'))
   \<and> GCEDelete s si key w =
     GCEDelete (s\<lparr>RateLimiter := NopRateLimiter\<rparr>) si key
       (snd (RateLimiter s
          \<lparr>Operation = ''Delete'', Version = ServiceInfo.Version si, Target = Object si\<rparr> w))
   \<and> GCEMethod s si meth key args w =
     GCEMethod (s\<lparr>RateLimiter := NopRateLimiter\<rparr>) si meth key args
       (snd (RateLimiter s
          \<lparr>Operation = Method.Name meth, Version = ServiceInfo.Version si, Target = Object si\<rparr> w))"
proof (intro conjI)
  show "GCEGet s si key w =
     GCEGet (s\<lparr>RateLimiter := NopRateLimiter\<rparr>) si key
       (snd (RateLimiter s
          \<lparr>Operation = ''Get'', Version = ServiceInfo.Version si, Target = Object si\<rparr> w))"
    by (simp add: GCEGet_def NopRateLimiter_def)
  show "GCEList s si loc w =
     GCEList (s\<lparr>RateLimiter := NopRateLimiter\<rparr>) si loc
       (snd (RateLimiter s
          \<lparr>Operation = ''List'', Version = ServiceInfo.Version si, Target = Object si\<rparr> w))"
    by (simp add: GCEList_def NopRateLimiter_def Let_def split: prod.splits option.splits)
  show "GCEInsert s' si key obj w' =
     GCEInsert (s'\<lparr>RateLimiter := NopRateLimiter\<rparr>) si key obj
       (snd (RateLimiter s'
          \<lparr>Operation = ''Insert'', Version = ServiceInfo.Version si, Target = Object si\<rparr> w'))"
    by (simp add: GCEInsert_def NopRateLimiter_def Let_def split: prod.splits option.splits)
  show "GCEDelete s si key w =
     GCEDelete (s\<lparr>RateLimiter := NopRateLimiter\<rparr>) si key
       (snd (RateLimiter s
          \<lparr>Operation = ''Delete'', Version = ServiceInfo.Version si, Target = Object si\<rparr> w))"
    by (simp add: GCEDelete_def NopRateLimiter_def Let_def split: prod.splits option.splits)
  show "GCEMethod s si meth key args w =
     GCEMethod (s\<lparr>RateLimiter := NopRateLimiter\<rparr>) si meth key args
       (snd (RateLimiter s
          \<lparr>Operation = Method.Name meth, Version = ServiceInfo.Version si, Target = Object si\<rparr> w))"
    by (simp add: GCEMethod_def NopRateLimiter_def Let_def split: prod.splits option.splits)
qed

theorem GCE_Accept_first_witness:
  "GCEGet (logService (Some (OtherError ''Throttled'')) None None) Firewalls (GlobalKey ''abc'') [] =
     GCEGet (logService (Some (OtherError ''Throttled'')) None None\<lparr>RateLimiter := NopRateLimiter\<rparr>)
       Firewalls (GlobalKey ''abc'') [''Accept Get'']
   \<and> GCEGet (logService (Some (OtherError ''Throttled'')) None None\<lparr>RateLimiter := NopRateLimiter\<rparr>)
       Firewalls (GlobalKey ''abc'') [''Accept Get''] =
      ((Some \<lparr>Name = ''abc''\<rparr>, None), [''Accept Get'', ''ProjectID'', ''Get''])"
  using GCE_Accept_first [of "logService (Some (OtherError ''Throttled'')) None None" Firewalls
      "GlobalKey ''abc''" "[]"]
  by (simp add: logService_def Firewalls_def GCEGet_def GetCall_def NopRateLimiter_def)

text \<open>
  C5. \<^verbatim>\<open>Insert\<close> issues its call with the object whose \<^verbatim>\<open>Name\<close> is the key's name. When the
  call fails, \<^verbatim>\<open>Insert\<close> returns that error, in the world the call leaves (the waiter is
  not called); when the call succeeds, the handle goes to \<^verbatim>\<open>WaitForCompletion\<close>, and
  \<^verbatim>\<open>Insert\<close> returns what the waiter returns, in the world the waiter leaves. \<^verbatim>\<open>Delete\<close>
  does the same with its call.
\<close>

theorem GCEInsert_Delete_completion:
  "(ProjectRouter s (ServiceInfo.Version si) (Service si)
      (snd (RateLimiter s
         \<lparr>Operation = ''Insert'', Version = ServiceInfo.Version si, Target = Object si\<rparr> w)) =
      (projectID, w2)
    \<and> OperationDo s (InsertCall si projectID key (obj\<lparr>Name := Key.Name key\<rparr>)) w2 = ((op, err), w3)
    \<longrightarrow>
      GCEInsert s si key obj w =
        (case err of
           Some e \<Rightarrow> (Some e, obj\<lparr>Name := Key.Name key\<rparr>, w3)
         | None \<Rightarrow>
            (fst (WaitForCompletion s op w3), obj\<lparr>Name := Key.Name key\<rparr>,
             snd (WaitForCompletion s op w3))))
   \<and> (ProjectRouter s (ServiceInfo.Version si) (Service si)
      (snd (RateLimiter s
         \<lparr>Operation = ''Delete'', Version = ServiceInfo.Version si, Target = Object si\<rparr> w)) =
      (projectID, w2)
    \<and> OperationDo s (DeleteCall si projectID key) w2 = ((op, err), w3)
    \<longrightarrow>
      GCEDelete s si key w =
        (case err of
           Some e \<Rightarrow> (Some e, w3)
         | None \<Rightarrow> WaitForCompletion s op w3))"
  by (simp add: GCEInsert_def GCEDelete_def split: prod.splits option.splits)

theorem GCEInsert_Delete_completion_witness:
  "GCEInsert (logService None None (Some (OtherError ''operation failed''))) Firewalls
      (GlobalKey ''abc'') \<lparr>Name = ''other''\<rparr> [] =
     (Some (OtherError ''operation failed''), \<lparr>Name = ''abc''\<rparr>,
      [''Accept Insert'', ''ProjectID'', ''Insert'', ''WaitForCompletion''])
   \<and> GCEInsert (logService None (Some (OtherError ''transport'')) None) Firewalls
      (GlobalKey ''abc'') \<lparr>Name = ''other''\<rparr> [] =
     (Some (OtherError ''transport''), \<lparr>Name = ''abc''\<rparr>,
      [''Accept Insert'', ''ProjectID'', ''Insert''])
   \<and> GCEDelete (logService None None None) Firewalls (GlobalKey ''abc'') [] =
     (None, [''Accept Delete'', ''ProjectID'', ''Delete'', ''WaitForCompletion''])"
  using GCEInsert_Delete_completion [of "logService None None (Some (OtherError ''operation failed''))"
      Firewalls "[]" "''bowei-gke''" "[''Accept Insert'', ''ProjectID'']" "GlobalKey ''abc''"
      "\<lparr>Name = ''other''\<rparr>" "Some 7" None "[''Accept Insert'', ''ProjectID'', ''Insert'']"]
    GCEInsert_Delete_completion [of "logService None (Some (OtherError ''transport'')) None"
      Firewalls "[]" "''bowei-gke''" "[''Accept Insert'', ''ProjectID'']" "GlobalKey ''abc''"
      "\<lparr>Name = ''other''\<rparr>" "Some 7" "Some (OtherError ''transport'')"
      "[''Accept Insert'', ''ProjectID'', ''Insert'']"]
    GCEInsert_Delete_completion [of "logService None None None"
      Firewalls "[]" "''bowei-gke''" "[''Accept Delete'', ''ProjectID'']" "GlobalKey ''abc''"
      "\<lparr>Name = ''other''\<rparr>" "Some 7" None "[''Accept Delete'', ''ProjectID'', ''Delete'']"]
  by (simp add: logService_def Firewalls_def InsertCall_def DeleteCall_def)

text \<open>
  C10. The mock's insert stores the caller's object as it is given: without hooks and
  injected errors, an insert under a key that is not in the store puts exactly the given
  object there and the get that follows returns it, with the \<^verbatim>\<open>Name\<close> it came with. The
  real adapter's insert sets the \<^verbatim>\<open>Name\<close> of the object from the key.
\<close>

theorem MockInsert_keeps_Name:
  assumes "InsertHook hooks = None" and "GetHook hooks = None"
    and "InsertError m key = None" and "GetError m key = None" and "Objects m key = None"
  shows "MockInsert hooks si m key obj = (None, m\<lparr>Objects := (Objects m)(key \<mapsto> obj)\<rparr>)
       \<and> fst (MockGet hooks si (snd (MockInsert hooks si m key obj)) key) = (Some obj, None)
       \<and> fst (snd (GCEInsert s si key obj w)) = obj\<lparr>Name := Key.Name key\<rparr>"
  using assms
  by (simp add: MockInsert_default MockGet_default GCEInsert_def Let_def split: prod.splits option.splits)

theorem MockInsert_keeps_Name_witness:
  "InsertHook noHooks = None \<and> GetHook noHooks = None
   \<and> InsertError emptyMock (GlobalKey ''abc'') = None \<and> GetError emptyMock (GlobalKey ''abc'') = None
   \<and> Objects emptyMock (GlobalKey ''abc'') = None
   \<and> Name \<lparr>Name = ''other''\<rparr> \<noteq> Key.Name (GlobalKey ''abc'')
   \<and> fst (MockGet noHooks Firewalls
        (snd (MockInsert noHooks Firewalls emptyMock (GlobalKey ''abc'') \<lparr>Name = ''other''\<rparr>))
        (GlobalKey ''abc'')) = (Some \<lparr>Name = ''other''\<rparr>, None)
   \<and> fst (snd (GCEInsert (logService None None None) Firewalls (GlobalKey ''abc'')
        \<lparr>Name = ''other''\<rparr> [])) = \<lparr>Name = ''abc''\<rparr>"
  using MockInsert_keeps_Name [of noHooks emptyMock "GlobalKey ''abc''" Firewalls
      "\<lparr>Name = ''other''\<rparr>" "logService None None None" "[]"]
  by (simp add: NewMockHooks_def NewMock_def MockInsert_def MockGet_def)

end
